theory Spec2Isabelle
  imports Main "HOL-Library.Word"
begin

section \<open>JavaScript values, promises and effects\<close>

text \<open>
  The values that flow through the error paths of the storage code: rejection reasons,
  the \<^verbatim>\<open>err\<close> argument of the two fallback closures, asset ids and the capability
  fields of a store record. \<open>JObject\<close> stands for any other object (always truthy),
  \<open>JTypeError\<close> for the \<^verbatim>\<open>TypeError\<close> the engine raises on a property access on
  \<^verbatim>\<open>undefined\<close>.
\<close>

datatype js_value =
    JUndefined
  | JNull
  | JBool bool
  | JNum int
  | JStr string
  | JError string
  | JTypeError
  | JArray "js_value list"
  | JObject nat

text \<open>What \<^verbatim>\<open>if (v)\<close>, \<^verbatim>\<open>!v\<close>, \<^verbatim>\<open>&&\<close> and \<^verbatim>\<open>||\<close> test. An array is an object: \<^verbatim>\<open>[]\<close> is truthy.\<close>

fun truthy :: "js_value \<Rightarrow> bool" where
  "truthy JUndefined = False"
| "truthy JNull = False"
| "truthy (JBool b) = b"
| "truthy (JNum n) = (n \<noteq> 0)"
| "truthy (JStr s) = (s \<noteq> [])"
| "truthy (JError m) = True"
| "truthy JTypeError = True"
| "truthy (JArray vs) = True"
| "truthy (JObject h) = True"

text \<open>The settled state of a promise; \<open>Pending\<close> is a promise that never settles.\<close>

datatype 'a promise = Fulfilled 'a | Rejected js_value | Pending

text \<open>A call either throws synchronously or returns.\<close>

datatype 'a completion = Threw js_value | Returned 'a

type_synonym buffer = "8 word list"

record asset_type =
  name :: string
  runtimeFormat :: string

record asset =
  assetType :: asset_type
  assetId :: string
  dataFormat :: string
  data :: "buffer option"

section \<open>Helpers as the Coordinator sees them\<close>

text \<open>
  What a promise returned by \<^verbatim>\<open>helper.load\<close> can be fulfilled with, and what the call
  \<^verbatim>\<open>helper.load(assetType, assetId, dataFormat)\<close> can do: return \<^verbatim>\<open>null\<close> (the
  sentinel), return \<^verbatim>\<open>undefined\<close>, return a promise, or throw.
\<close>

datatype load_value = VAsset asset | VNull | VUndefined

datatype helper_call =
    ReturnsNull
  | ReturnsUndefined
  | ReturnsPromise "load_value promise"
  | Throws js_value

record helper =
  hname :: string
  hload :: "asset_type \<Rightarrow> string \<Rightarrow> string \<Rightarrow> helper_call"

record helper_entry =
  helper :: helper
  priority :: int

section \<open>ScratchStorage: the Coordinator\<close>

subsection \<open>constructor and addHelper\<close>

definition constructor_helpers :: "helper \<Rightarrow> helper \<Rightarrow> helper_entry list" where
  "constructor_helpers builtinHelper firebaseHelper =
     [\<lparr>helper = builtinHelper, priority = 100\<rparr>,
      \<lparr>helper = firebaseHelper, priority = - 100\<rparr>]"

text \<open>
  \<^verbatim>\<open>this._helpers.push({helper, priority}); this._helpers.sort((a, b) => b.priority - a.priority)\<close>.
  \<^verbatim>\<open>Array.prototype.sort\<close> is stable and the comparator is a consistent order on integer
  priorities, so the result is the stable sort by descending priority, which is what
  \<open>sort_key\<close> with the negated key computes. An omitted priority defaults to 0.
\<close>

definition addHelper :: "helper_entry list \<Rightarrow> helper \<Rightarrow> int option \<Rightarrow> helper_entry list" where
  "addHelper entries h p =
     sort_key (\<lambda>e. - priority e)
       (entries @ [\<lparr>helper = h, priority = (case p of None \<Rightarrow> 0 | Some q \<Rightarrow> q)\<rparr>])"

fun addHelpers :: "helper_entry list \<Rightarrow> (helper \<times> int option) list \<Rightarrow> helper_entry list" where
  "addHelpers entries [] = entries"
| "addHelpers entries ((h, p) # calls) = addHelpers (addHelper entries h p) calls"

subsection \<open>load\<close>

text \<open>
  The result of one \<^verbatim>\<open>load\<close>: what the call itself does (throw, or return a promise in
  its settled state), the helpers whose \<^verbatim>\<open>load\<close> was invoked, in order of invocation, and
  the final contents of the \<^verbatim>\<open>errors\<close> array.
\<close>

record load_walk =
  outcome :: "load_value promise completion"
  invoked :: "string list"
  errors :: "js_value list"

text \<open>
  \<^verbatim>\<open>tryNextHelper(err)\<close>. The helpers still to try are the suffix of \<^verbatim>\<open>helpers\<close> from
  \<^verbatim>\<open>helperIndex\<close> on; \<^verbatim>\<open>helpers[helperIndex++]\<close> is its head, or \<^verbatim>\<open>undefined\<close> when it
  is empty. \<^verbatim>\<open>loading.catch(tryNextHelper)\<close> passes a fulfilment through unchanged, stays
  pending with a pending \<^verbatim>\<open>loading\<close>, and on a rejection settles as the promise that
  \<^verbatim>\<open>tryNextHelper(reason)\<close> returns, or rejects with what it throws.
\<close>

fun tryNextHelper ::
  "helper list \<Rightarrow> asset_type \<Rightarrow> string \<Rightarrow> string \<Rightarrow> js_value \<Rightarrow> js_value list \<Rightarrow> load_walk"
where
  "tryNextHelper [] t i f err errs =
     (let errs' = (if truthy err then errs @ [err] else errs) in
      \<lparr>outcome = Returned (if length errs' > 0 then Rejected (JArray errs') else Fulfilled VNull),
       invoked = [], errors = errs'\<rparr>)"
| "tryNextHelper (h # hs) t i f err errs =
     (let errs' = (if truthy err then errs @ [err] else errs) in
      case hload h t i f of
        ReturnsNull \<Rightarrow>
          (let w = tryNextHelper hs t i f JUndefined errs'
           in w\<lparr>invoked := hname h # invoked w\<rparr>)
      | ReturnsUndefined \<Rightarrow> \<lparr>outcome = Threw JTypeError, invoked = [hname h], errors = errs'\<rparr>
      | Throws e \<Rightarrow> \<lparr>outcome = Threw e, invoked = [hname h], errors = errs'\<rparr>
      | ReturnsPromise loading \<Rightarrow>
          (case loading of
             Fulfilled v \<Rightarrow> \<lparr>outcome = Returned (Fulfilled v), invoked = [hname h], errors = errs'\<rparr>
           | Pending \<Rightarrow> \<lparr>outcome = Returned Pending, invoked = [hname h], errors = errs'\<rparr>
           | Rejected reason \<Rightarrow>
               (let w = tryNextHelper hs t i f reason errs'
                in w\<lparr>outcome := Returned (case outcome w of Threw e \<Rightarrow> Rejected e | Returned q \<Rightarrow> q),
                     invoked := hname h # invoked w\<rparr>)))"

text \<open>\<^verbatim>\<open>dataFormat || assetType.runtimeFormat\<close>: an omitted or empty format is falsy.\<close>

definition defaultFormat :: "asset_type \<Rightarrow> string option \<Rightarrow> string" where
  "defaultFormat t fmt =
     (case fmt of None \<Rightarrow> runtimeFormat t | Some f \<Rightarrow> if f \<noteq> [] then f else runtimeFormat t)"

definition load :: "helper_entry list \<Rightarrow> asset_type \<Rightarrow> string \<Rightarrow> string option \<Rightarrow> load_walk" where
  "load entries t i fmt =
     tryNextHelper (map helper entries) t i (defaultFormat t fmt) JUndefined []"

section \<open>FirebaseHelper: the remote Helper\<close>

text \<open>
  A StoreRecord. \<^verbatim>\<open>create\<close> and \<^verbatim>\<open>update\<close> are the properties that \<^verbatim>\<open>store\<close> reads
  as \<^verbatim>\<open>s.create\<close> and \<^verbatim>\<open>s.update\<close>; a property that was never set reads as
  \<^verbatim>\<open>undefined\<close>. The storage reference is an opaque handle.
\<close>

record store_record =
  types :: "string list"
  storageReference :: nat
  create :: js_value
  update :: js_value

text \<open>\<^verbatim>\<open>this.stores.push({types: types.map(assetType => assetType.name), storageReference: ...})\<close>\<close>

definition addStore :: "store_record list \<Rightarrow> asset_type list \<Rightarrow> nat \<Rightarrow> store_record list" where
  "addStore stores ts firebaseStorageReference =
     stores @ [\<lparr>types = map name ts, storageReference = firebaseStorageReference,
                create = JUndefined, update = JUndefined\<rparr>]"

fun addStores :: "store_record list \<Rightarrow> (asset_type list \<times> nat) list \<Rightarrow> store_record list" where
  "addStores stores [] = stores"
| "addStores stores ((ts, r) # calls) = addStores (addStore stores ts r) calls"

text \<open>
  What the Helper does to the outside world, in the order it does it: a
  \<^verbatim>\<open>console.warn\<close>, a \<^verbatim>\<open>getBytes\<close> on the object \<^verbatim>\<open>ref(storageRef, key)\<close>, an
  \<^verbatim>\<open>uploadBytes\<close> to \<^verbatim>\<open>ref(storageRef, assetId)\<close>. The last two are the network calls.
\<close>

datatype event =
    Warn string
  | GetBytes nat string
  | UploadBytes nat js_value buffer

fun network_call :: "event \<Rightarrow> bool" where
  "network_call (Warn m) = False"
| "network_call (GetBytes r k) = True"
| "network_call (UploadBytes r k d) = True"

text \<open>
  Modelled from the spec: the Asset class (\<^verbatim>\<open>./Asset\<close>) is not among the sources. An
  Asset is constructed empty and has its payload set by the resolution flow.
\<close>

definition new_Asset :: "asset_type \<Rightarrow> string \<Rightarrow> string \<Rightarrow> asset" where
  "new_Asset t i f = \<lparr>assetType = t, assetId = i, dataFormat = f, data = None\<rparr>"

definition setData :: "asset \<Rightarrow> buffer \<Rightarrow> asset" where
  "setData a buf = a\<lparr>data := Some buf\<rparr>"

subsection \<open>load\<close>

text \<open>
  One call of \<^verbatim>\<open>tryNextSource(err)\<close> together with the continuations it schedules:
  what the call returns, the events in order, the settled state of the promise
  \<^verbatim>\<open>getBytes(assetRef).then(...)\<close> that the call creates (\<open>None\<close> when it creates none),
  the asset object and the \<^verbatim>\<open>errors\<close> array afterwards.
\<close>

record source_run =
  returned :: helper_call
  events :: "event list"
  chained :: "load_value promise option"
  asset_after :: asset
  errors_after :: "js_value list"

text \<open>
  The backend is the behaviour of \<^verbatim>\<open>getBytes\<close> at a storage reference and key: the
  settled state of its promise, fulfilled with a buffer (\<open>Some\<close>, truthy) or with a falsy
  value (\<open>None\<close>).

  The candidates still to try are the suffix of \<^verbatim>\<open>stores\<close> from \<^verbatim>\<open>storeIndex\<close> on. With a
  store at hand the function calls \<^verbatim>\<open>getBytes(assetRef).then(...)\<close> as a statement, warns
  and falls off its end: it returns \<^verbatim>\<open>undefined\<close>. The \<^verbatim>\<open>then\<close> callback runs later; there
  is no \<^verbatim>\<open>catch\<close>, so a rejected \<^verbatim>\<open>getBytes\<close> leaves the chained promise rejected and
  nothing else runs.
\<close>

fun tryNextSource ::
  "(nat \<Rightarrow> string \<Rightarrow> buffer option promise) \<Rightarrow> store_record list \<Rightarrow> string \<Rightarrow> string \<Rightarrow>
   asset \<Rightarrow> js_value \<Rightarrow> js_value list \<Rightarrow> source_run"
where
  "tryNextSource getBytes [] i f a err errs =
     (let errs' = (if truthy err then errs @ [err] else errs) in
      \<lparr>returned = ReturnsPromise (Rejected (JArray errs')), events = [], chained = None,
       asset_after = a, errors_after = errs'\<rparr>)"
| "tryNextSource getBytes (store # stores) i f a err errs =
     (let errs' = (if truthy err then errs @ [err] else errs);
          storageRef = storageReference store;
          key = i @ ''.'' @ f;
          sync = [GetBytes storageRef key, Warn ''Asset not found in Firebase storage'']
      in case getBytes storageRef key of
           Fulfilled (Some buf) \<Rightarrow>
             \<lparr>returned = ReturnsUndefined, events = sync,
              chained = Some (Fulfilled (VAsset (setData a buf))),
              asset_after = setData a buf, errors_after = errs'\<rparr>
         | Fulfilled None \<Rightarrow>
             (let r = tryNextSource getBytes stores i f a JUndefined errs' in
              \<lparr>returned = ReturnsUndefined, events = sync @ events r,
               chained = Some (case returned r of
                                 ReturnsPromise p \<Rightarrow> p
                               | ReturnsUndefined \<Rightarrow> Fulfilled VUndefined
                               | ReturnsNull \<Rightarrow> Fulfilled VNull
                               | Throws e \<Rightarrow> Rejected e),
               asset_after = asset_after r, errors_after = errors_after r\<rparr>)
         | Rejected e \<Rightarrow>
             \<lparr>returned = ReturnsUndefined, events = sync, chained = Some (Rejected e),
              asset_after = a, errors_after = errs'\<rparr>
         | Pending \<Rightarrow>
             \<lparr>returned = ReturnsUndefined, events = sync, chained = Some Pending,
              asset_after = a, errors_after = errs'\<rparr>)"

text \<open>\<^verbatim>\<open>this.stores.slice().filter(store => store.types.indexOf(assetType.name) >= 0)\<close>\<close>

definition candidates :: "store_record list \<Rightarrow> asset_type \<Rightarrow> store_record list" where
  "candidates stores t = filter (\<lambda>store. name t \<in> set (types store)) stores"

definition FirebaseHelper_load ::
  "(nat \<Rightarrow> string \<Rightarrow> buffer option promise) \<Rightarrow> store_record list \<Rightarrow>
   asset_type \<Rightarrow> string \<Rightarrow> string \<Rightarrow> source_run"
where
  "FirebaseHelper_load getBytes stores t i f =
     (let cands = candidates stores t;
          a = new_Asset t i f
      in if name t = ''Project''
         then \<lparr>returned = ReturnsUndefined,
               events = [Warn ''Project loading is not supported yet''], chained = None,
               asset_after = a, errors_after = []\<rparr>
         else tryNextSource getBytes cands i f a JUndefined [])"

text \<open>The remote Helper as an entry of the Coordinator's collection.\<close>

definition firebaseHelper ::
  "(nat \<Rightarrow> string \<Rightarrow> buffer option promise) \<Rightarrow> store_record list \<Rightarrow> helper" where
  "firebaseHelper getBytes stores =
     \<lparr>hname = ''firebase'',
      hload = (\<lambda>t i f. returned (FirebaseHelper_load getBytes stores t i f))\<rparr>"

subsection \<open>store\<close>

record metadata =
  body_id :: js_value

datatype store_call = StoreUndefined | StorePromise "metadata promise"

record store_run =
  stored :: store_call
  store_events :: "event list"

text \<open>\<^verbatim>\<open>assetId === '' || assetId === null || typeof assetId === 'undefined'\<close>\<close>

definition is_create :: "js_value \<Rightarrow> bool" where
  "is_create aid = (aid = JStr [] \<or> aid = JNull \<or> aid = JUndefined)"

text \<open>
  The filter of \<^verbatim>\<open>store\<close>:
  \<^verbatim>\<open>s.types.indexOf(assetType.name) !== -1 && ((create && s.create) || s.update)\<close>.
\<close>

definition eligible :: "asset_type \<Rightarrow> js_value \<Rightarrow> store_record \<Rightarrow> bool" where
  "eligible t aid s =
     (name t \<in> set (types s) \<and> ((is_create aid \<and> truthy (create s)) \<or> truthy (update s)))"

definition FirebaseHelper_store ::
  "(nat \<Rightarrow> js_value \<Rightarrow> buffer \<Rightarrow> metadata promise) \<Rightarrow> store_record list \<Rightarrow>
   asset_type \<Rightarrow> string \<Rightarrow> buffer \<Rightarrow> js_value \<Rightarrow> store_run"
where
  "FirebaseHelper_store uploadBytes stores t f d aid =
     (case filter (eligible t aid) stores of
        [] \<Rightarrow> \<lparr>stored = StorePromise (Rejected (JError ''No appropriate stores'')),
               store_events = []\<rparr>
      | store # rest \<Rightarrow>
          if name t = ''Project''
          then \<lparr>stored = StoreUndefined,
                store_events = [Warn ''Project loading is not supported yet'']\<rparr>
          else \<lparr>stored = StorePromise (uploadBytes (storageReference store) aid d),
                store_events = [UploadBytes (storageReference store) aid d]\<rparr>)"

section \<open>ScratchStorage.store\<close>

text \<open>
  \<^verbatim>\<open>this.builtinHelper._store\<close> is not among the sources; it is a parameter: given the
  cache it returns the value it throws, if it throws, and the cache afterwards.

  The executor runs at once. \<^verbatim>\<open>firebaseHelper.store(...).then\<close> on \<^verbatim>\<open>undefined\<close> throws a
  \<^verbatim>\<open>TypeError\<close> inside the executor, which rejects the new promise. An exception in the
  \<^verbatim>\<open>then\<close> callback rejects the chained promise, and \<^verbatim>\<open>.catch(error => reject(error))\<close>
  passes every rejection on.
\<close>

record 'c coordinator_store =
  store_outcome :: "metadata promise"
  cache_after :: 'c
  mirrored :: "(asset_type \<times> string \<times> buffer \<times> js_value) list"
  remote_events :: "event list"

definition store ::
  "(asset_type \<Rightarrow> string \<Rightarrow> buffer \<Rightarrow> js_value \<Rightarrow> 'c \<Rightarrow> js_value option \<times> 'c) \<Rightarrow>
   (nat \<Rightarrow> js_value \<Rightarrow> buffer \<Rightarrow> metadata promise) \<Rightarrow> store_record list \<Rightarrow> 'c \<Rightarrow>
   asset_type \<Rightarrow> string option \<Rightarrow> buffer \<Rightarrow> js_value \<Rightarrow> 'c coordinator_store"
where
  "store builtin_store uploadBytes stores cache t fmt d aid =
     (let f = defaultFormat t fmt;
          r = FirebaseHelper_store uploadBytes stores t f d aid
      in case stored r of
           StoreUndefined \<Rightarrow>
             \<lparr>store_outcome = Rejected JTypeError, cache_after = cache, mirrored = [],
              remote_events = store_events r\<rparr>
         | StorePromise p \<Rightarrow>
             (case p of
                Fulfilled body \<Rightarrow>
                  (case builtin_store t f d (body_id body) cache of
                     (Some e, cache') \<Rightarrow>
                       \<lparr>store_outcome = Rejected e, cache_after = cache',
                        mirrored = [(t, f, d, body_id body)], remote_events = store_events r\<rparr>
                   | (None, cache') \<Rightarrow>
                       \<lparr>store_outcome = Fulfilled body, cache_after = cache',
                        mirrored = [(t, f, d, body_id body)], remote_events = store_events r\<rparr>)
              | Rejected e \<Rightarrow>
                  \<lparr>store_outcome = Rejected e, cache_after = cache, mirrored = [],
                   remote_events = store_events r\<rparr>
              | Pending \<Rightarrow>
                  \<lparr>store_outcome = Pending, cache_after = cache, mirrored = [],
                   remote_events = store_events r\<rparr>))"

section \<open>Vocabulary of the properties\<close>

text \<open>
  A helper call after which \<^verbatim>\<open>tryNextHelper\<close> runs again: the \<^verbatim>\<open>null\<close> sentinel
  (\<^verbatim>\<open>return tryNextHelper()\<close>) and a promise that rejects (\<^verbatim>\<open>.catch(tryNextHelper)\<close>).
\<close>

fun advances :: "helper_call \<Rightarrow> bool" where
  "advances ReturnsNull = True"
| "advances (ReturnsPromise (Rejected r)) = True"
| "advances c = False"

text \<open>
  What a helper call adds to \<^verbatim>\<open>errors\<close>: the rejection reason, when it passes
  \<^verbatim>\<open>if (err)\<close>.
\<close>

fun recorded :: "helper_call \<Rightarrow> js_value list" where
  "recorded (ReturnsPromise (Rejected r)) = (if truthy r then [r] else [])"
| "recorded c = []"



section \<open>Concrete inputs for evaluation\<close>

definition ImageBitmap :: asset_type where
  "ImageBitmap = \<lparr>name = ''ImageBitmap'', runtimeFormat = ''png''\<rparr>"

definition Project :: asset_type where
  "Project = \<lparr>name = ''Project'', runtimeFormat = ''json''\<rparr>"

definition png_bytes :: buffer where
  "png_bytes = [0x89, 0x50, 0x4E, 0x47]"

definition png_asset :: asset where
  "png_asset = \<lparr>assetType = ImageBitmap, assetId = ''abc123'', dataFormat = ''png'',
                 data = Some png_bytes\<rparr>"

text \<open>A helper whose \<^verbatim>\<open>load\<close> does the same whatever it is asked for.\<close>

definition constHelper :: "string \<Rightarrow> helper_call \<Rightarrow> helper" where
  "constHelper n c = \<lparr>hname = n, hload = (\<lambda>t i f. c)\<rparr>"

text \<open>
  The built-in helper's class is not among the sources. This stands for one with nothing
  cached: its \<^verbatim>\<open>load\<close> returns the \<^verbatim>\<open>null\<close> sentinel.
\<close>

definition builtin_empty :: helper where
  "builtin_empty = constHelper ''builtin'' ReturnsNull"

text \<open>Helper collections, with the status codes a transport rejects with as reasons.\<close>

definition entries_error_then_asset :: "helper_entry list" where
  "entries_error_then_asset =
     [\<lparr>helper = constHelper ''builtin'' (ReturnsPromise (Rejected (JNum 500))), priority = 100\<rparr>,
      \<lparr>helper = constHelper ''remote'' (ReturnsPromise (Fulfilled (VAsset png_asset))),
       priority = - 100\<rparr>]"

text \<open>
  Sequences of \<^verbatim>\<open>addHelper\<close> calls on a new Coordinator: two helpers above the built-in
  one, and one above it with one below the remote one.
\<close>

definition calls_null_then_asset :: "(helper \<times> int option) list" where
  "calls_null_then_asset =
     [(constHelper ''first'' (ReturnsPromise (Fulfilled VNull)), Some 300),
      (constHelper ''second'' (ReturnsPromise (Fulfilled (VAsset png_asset))), Some 200)]"

definition calls_skip_then_asset :: "(helper \<times> int option) list" where
  "calls_skip_then_asset =
     [(constHelper ''first'' ReturnsNull, Some 300),
      (constHelper ''second'' (ReturnsPromise (Fulfilled (VAsset png_asset))), Some 200)]"

definition calls_error_then_null :: "(helper \<times> int option) list" where
  "calls_error_then_null =
     [(constHelper ''first'' (ReturnsPromise (Rejected (JNum 403))), Some 300),
      (constHelper ''last'' (ReturnsPromise (Fulfilled VNull)), Some (- 200))]"

definition calls_error_then_skip :: "(helper \<times> int option) list" where
  "calls_error_then_skip =
     [(constHelper ''first'' (ReturnsPromise (Rejected (JNum 403))), Some 300),
      (constHelper ''last'' ReturnsNull, Some (- 200))]"


text \<open>Backends and store lists.\<close>

definition backend_has_bytes :: "nat \<Rightarrow> string \<Rightarrow> buffer option promise" where
  "backend_has_bytes r k = Fulfilled (Some png_bytes)"

definition backend_forbidden :: "nat \<Rightarrow> string \<Rightarrow> buffer option promise" where
  "backend_forbidden r k = Rejected (JNum 403)"

definition backend_second_has_bytes :: "nat \<Rightarrow> string \<Rightarrow> buffer option promise" where
  "backend_second_has_bytes r k = (if r = 2 then Fulfilled (Some png_bytes) else Fulfilled None)"

definition one_store :: "store_record list" where
  "one_store = addStores [] [([ImageBitmap], 1)]"

definition two_stores :: "store_record list" where
  "two_stores = addStores [] [([ImageBitmap], 1), ([ImageBitmap], 2)]"

definition project_store :: "store_record list" where
  "project_store = addStores [] [([Project], 1)]"

definition project_update_store :: "store_record list" where
  "project_update_store =
     [\<lparr>types = [''Project''], storageReference = 1, create = JObject 0, update = JObject 1\<rparr>]"

definition upload_ok :: "nat \<Rightarrow> js_value \<Rightarrow> buffer \<Rightarrow> metadata promise" where
  "upload_ok r k d = Fulfilled \<lparr>body_id = JStr ''abc123''\<rparr>"

section \<open>The walk over the helpers\<close>

text \<open>
  The \<^verbatim>\<open>err\<close> argument only matters through the push at the start of the call.
\<close>

lemma tryNextHelper_err:
  "tryNextHelper hs t i f err errs =
   tryNextHelper hs t i f JUndefined (if truthy err then errs @ [err] else errs)"
  by (cases hs) (simp_all add: Let_def)

text \<open>The helpers invoked are a prefix of the list, in its order.\<close>

lemma invoked_take:
  "invoked (tryNextHelper hs t i f err errs) =
   take (length (invoked (tryNextHelper hs t i f err errs))) (map hname hs)"
proof (induction hs arbitrary: err errs)
  case Nil
  show ?case by (simp add: Let_def)
next
  case (Cons h hs)
  show ?case
  proof (cases "hload h t i f")
    case ReturnsNull
    then show ?thesis using Cons.IH by (simp add: Let_def)
  next
    case ReturnsUndefined
    then show ?thesis by (simp add: Let_def)
  next
    case (ReturnsPromise p)
    then show ?thesis using Cons.IH by (cases p) (simp_all add: Let_def)
  next
    case (Throws e)
    then show ?thesis by (simp add: Let_def)
  qed
qed

lemma invoked_length: "length (invoked (tryNextHelper hs t i f err errs)) \<le> length hs"
proof (induction hs arbitrary: err errs)
  case Nil
  show ?case by (simp add: Let_def)
next
  case (Cons h hs)
  show ?case
  proof (cases "hload h t i f")
    case (ReturnsPromise p)
    then show ?thesis using Cons.IH by (cases p) (simp_all add: Let_def)
  qed (use Cons.IH in \<open>simp_all add: Let_def\<close>)
qed

text \<open>
  The helper at position \<open>k\<close> is invoked exactly when every helper before it returned the
  sentinel or a promise that rejected.
\<close>

lemma invoked_iff:
  "k < length (invoked (tryNextHelper hs t i f err errs)) \<longleftrightarrow>
   k < length hs \<and> list_all (\<lambda>h. advances (hload h t i f)) (take k hs)"
proof (induction hs arbitrary: k err errs)
  case Nil
  show ?case by (simp add: Let_def)
next
  case (Cons h hs)
  show ?case
  proof (cases k)
    case 0
    show ?thesis
    proof (cases "hload h t i f")
      case (ReturnsPromise p)
      then show ?thesis using 0 by (cases p) (simp_all add: Let_def)
    qed (use 0 in \<open>simp_all add: Let_def\<close>)
  next
    case (Suc j)
    show ?thesis
    proof (cases "hload h t i f")
      case ReturnsNull
      then show ?thesis using Suc Cons.IH[of j JUndefined] by (simp add: Let_def)
    next
      case ReturnsUndefined
      then show ?thesis using Suc by (simp add: Let_def)
    next
      case (Throws e)
      then show ?thesis using Suc by (simp add: Let_def)
    next
      case (ReturnsPromise p)
      show ?thesis
      proof (cases p)
        case (Rejected r)
        then show ?thesis using ReturnsPromise Suc Cons.IH[of j r] by (simp add: Let_def)
      qed (use ReturnsPromise Suc in \<open>simp_all add: Let_def\<close>)
    qed
  qed
qed

text \<open>A fulfilled promise ends the walk where it is, with its value.\<close>

lemma tryNextHelper_settles:
  "k < length (invoked (tryNextHelper hs t i f err errs)) \<Longrightarrow>
   hload (hs ! k) t i f = ReturnsPromise (Fulfilled v) \<Longrightarrow>
   outcome (tryNextHelper hs t i f err errs) = Returned (Fulfilled v) \<and>
   length (invoked (tryNextHelper hs t i f err errs)) = Suc k"
proof (induction hs arbitrary: k err errs)
  case Nil
  then show ?case by (simp add: Let_def)
next
  case (Cons h hs)
  show ?case
  proof (cases k)
    case 0
    with Cons.prems show ?thesis by (simp add: Let_def)
  next
    case (Suc j)
    show ?thesis
    proof (cases "hload h t i f")
      case ReturnsNull
      with Cons.prems Suc Cons.IH[of j JUndefined] show ?thesis by (simp add: Let_def)
    next
      case ReturnsUndefined
      with Cons.prems Suc show ?thesis by (simp add: Let_def)
    next
      case (Throws e)
      with Cons.prems Suc show ?thesis by (simp add: Let_def)
    next
      case (ReturnsPromise p)
      show ?thesis
      proof (cases p)
        case (Rejected r)
        with ReturnsPromise Cons.prems Suc Cons.IH[of j r] show ?thesis by (simp add: Let_def)
      qed (use ReturnsPromise Cons.prems Suc in \<open>simp_all add: Let_def\<close>)
    qed
  qed
qed

text \<open>The \<^verbatim>\<open>errors\<close> array holds the truthy rejection reasons of the helpers invoked.\<close>

lemma errors_recorded:
  "errors (tryNextHelper hs t i f JUndefined errs) =
   errs @ concat (map (\<lambda>h. recorded (hload h t i f))
                    (take (length (invoked (tryNextHelper hs t i f JUndefined errs))) hs))"
proof (induction hs arbitrary: errs)
  case Nil
  show ?case by (simp add: Let_def)
next
  case (Cons h hs)
  show ?case
  proof (cases "hload h t i f")
    case ReturnsNull
    then show ?thesis using Cons.IH[of errs] by (simp add: Let_def)
  next
    case ReturnsUndefined
    then show ?thesis by (simp add: Let_def)
  next
    case (Throws e)
    then show ?thesis by (simp add: Let_def)
  next
    case (ReturnsPromise p)
    show ?thesis
    proof (cases p)
      case (Rejected r)
      have n: "tryNextHelper hs t i f r errs =
            tryNextHelper hs t i f JUndefined (if truthy r then errs @ [r] else errs)"
        by (rule tryNextHelper_err)
      show ?thesis
        using Rejected ReturnsPromise Cons.IH[of "if truthy r then errs @ [r] else errs"]
        by (simp add: Let_def n)
    qed (use ReturnsPromise in \<open>simp_all add: Let_def\<close>)
  qed
qed

lemma tryNextHelper_exhausted:
  "list_all (\<lambda>h. advances (hload h t i f)) hs \<Longrightarrow>
   tryNextHelper hs t i f JUndefined errs =
     \<lparr>outcome = Returned (if errs @ concat (map (\<lambda>h. recorded (hload h t i f)) hs) = []
                          then Fulfilled VNull
                          else Rejected (JArray (errs @ concat (map (\<lambda>h. recorded (hload h t i f)) hs)))),
      invoked = map hname hs,
      errors = errs @ concat (map (\<lambda>h. recorded (hload h t i f)) hs)\<rparr>"
proof (induction hs arbitrary: errs)
  case Nil
  show ?case by (simp add: Let_def)
next
  case (Cons h hs)
  from Cons.prems have tl: "list_all (\<lambda>h. advances (hload h t i f)) hs" by simp
  show ?case
  proof (cases "hload h t i f")
    case ReturnsNull
    then show ?thesis using Cons.IH[OF tl, of errs] by (simp add: Let_def)
  next
    case ReturnsUndefined
    with Cons.prems show ?thesis by (simp add: Let_def)
  next
    case (Throws e)
    with Cons.prems show ?thesis by (simp add: Let_def)
  next
    case (ReturnsPromise p)
    show ?thesis
    proof (cases p)
      case (Rejected r)
      have "tryNextHelper hs t i f r errs =
            tryNextHelper hs t i f JUndefined (if truthy r then errs @ [r] else errs)"
        by (rule tryNextHelper_err)
      with Rejected ReturnsPromise Cons.IH[OF tl, of "if truthy r then errs @ [r] else errs"]
      show ?thesis by (simp add: Let_def)
    qed (use ReturnsPromise Cons.prems in \<open>simp_all add: Let_def\<close>)
  qed
qed

subsection \<open>The same facts for load\<close>

lemma load_reached:
  assumes "k < length entries"
    and "list_all (\<lambda>e. advances (hload (helper e) t i (defaultFormat t fmt))) (take k entries)"
  shows "k < length (invoked (load entries t i fmt))"
proof -
  have "list_all (\<lambda>h. advances (hload h t i (defaultFormat t fmt))) (take k (map helper entries))"
    using assms(2) by (simp add: take_map list.pred_map comp_def)
  then show ?thesis
    unfolding load_def using assms(1) by (simp add: invoked_iff)
qed

lemma load_errors:
  "errors (load entries t i fmt) =
   concat (map (\<lambda>e. recorded (hload (helper e) t i (defaultFormat t fmt)))
             (take (length (invoked (load entries t i fmt))) entries))"
  unfolding load_def
  by (subst errors_recorded) (simp add: take_map comp_def)

lemma load_invoked:
  "invoked (load entries t i fmt) =
   take (length (invoked (load entries t i fmt))) (map (\<lambda>e. hname (helper e)) entries)"
  unfolding load_def
  by (subst invoked_take) (simp add: comp_def)

lemma load_settles:
  assumes "k < length (invoked (load entries t i fmt))"
    and "hload (helper (entries ! k)) t i (defaultFormat t fmt) = ReturnsPromise (Fulfilled v)"
  shows "outcome (load entries t i fmt) = Returned (Fulfilled v) \<and>
         length (invoked (load entries t i fmt)) = Suc k"
proof -
  have "length (invoked (load entries t i fmt)) \<le> length (map helper entries)"
    unfolding load_def by (rule invoked_length)
  with assms(1) have k: "k < length entries" by simp
  then have nth: "map helper entries ! k = helper (entries ! k)" by simp
  show ?thesis
    unfolding load_def
    by (rule tryNextHelper_settles) (use assms nth in \<open>simp_all add: load_def\<close>)
qed

text \<open>
  A reached helper whose promise is fulfilled with \<^verbatim>\<open>null\<close> ends the walk like any other
  fulfilment; a reached helper that returns the sentinel is followed by the next one.
\<close>

lemma load_null_promise_ends_walk:
  assumes "k < length entries"
    and "list_all (\<lambda>e. advances (hload (helper e) t i (defaultFormat t fmt))) (take k entries)"
  shows "(hload (helper (entries ! k)) t i (defaultFormat t fmt) = ReturnsPromise (Fulfilled VNull) \<longrightarrow>
            outcome (load entries t i fmt) = Returned (Fulfilled VNull) \<and>
            length (invoked (load entries t i fmt)) = Suc k) \<and>
         (hload (helper (entries ! k)) t i (defaultFormat t fmt) = ReturnsNull \<longrightarrow>
            Suc k < length entries \<longrightarrow> Suc k < length (invoked (load entries t i fmt))) \<and>
         invoked (load entries t i fmt) =
           take (length (invoked (load entries t i fmt))) (map (\<lambda>e. hname (helper e)) entries) \<and>
         errors (load entries t i fmt) =
           concat (map (\<lambda>e. recorded (hload (helper e) t i (defaultFormat t fmt)))
                     (take (length (invoked (load entries t i fmt))) entries))"
proof (intro conjI impI)
  have reached: "k < length (invoked (load entries t i fmt))"
    using assms by (rule load_reached)
  {
    assume "hload (helper (entries ! k)) t i (defaultFormat t fmt) = ReturnsPromise (Fulfilled VNull)"
    with reached show "outcome (load entries t i fmt) = Returned (Fulfilled VNull)"
      and "length (invoked (load entries t i fmt)) = Suc k"
      using load_settles by blast+
  }
  {
    assume null: "hload (helper (entries ! k)) t i (defaultFormat t fmt) = ReturnsNull"
      and more: "Suc k < length entries"
    have "list_all (\<lambda>e. advances (hload (helper e) t i (defaultFormat t fmt)))
            (take k entries @ [entries ! k])"
      using assms(2) null by simp
    then have "list_all (\<lambda>e. advances (hload (helper e) t i (defaultFormat t fmt)))
            (take (Suc k) entries)"
      using assms(1) by (simp add: take_Suc_conv_app_nth)
    with more show "Suc k < length (invoked (load entries t i fmt))"
      by (rule load_reached)
  }
  show "invoked (load entries t i fmt) =
           take (length (invoked (load entries t i fmt))) (map (\<lambda>e. hname (helper e)) entries)"
    by (rule load_invoked)
  show "errors (load entries t i fmt) =
           concat (map (\<lambda>e. recorded (hload (helper e) t i (defaultFormat t fmt)))
                     (take (length (invoked (load entries t i fmt))) entries))"
    by (rule load_errors)
qed

text \<open>
  When every helper returns the sentinel or a promise that rejects, the end of the list
  is reached: the call rejects with the recorded errors when there is one and resolves
  with \<^verbatim>\<open>null\<close> when there is none.
\<close>

lemma load_exhausted_rejects_or_null:
  assumes "list_all (\<lambda>e. advances (hload (helper e) t i (defaultFormat t fmt))) entries"
  shows "load entries t i fmt =
     \<lparr>outcome = Returned
        (if concat (map (\<lambda>e. recorded (hload (helper e) t i (defaultFormat t fmt))) entries) = []
         then Fulfilled VNull
         else Rejected (JArray
                (concat (map (\<lambda>e. recorded (hload (helper e) t i (defaultFormat t fmt))) entries)))),
      invoked = map (\<lambda>e. hname (helper e)) entries,
      errors = concat (map (\<lambda>e. recorded (hload (helper e) t i (defaultFormat t fmt))) entries)\<rparr>"
proof -
  have "list_all (\<lambda>h. advances (hload h t i (defaultFormat t fmt))) (map helper entries)"
    using assms by (simp add: list.pred_map comp_def)
  from tryNextHelper_exhausted [OF this, of "[]"] show ?thesis
    by (simp add: load_def comp_def)
qed

subsection \<open>The order of the collection\<close>








lemma collection_two_above:
  "addHelpers (constructor_helpers b r) [(h1, Some 300), (h2, Some 200)] =
     [\<lparr>helper = h1, priority = 300\<rparr>, \<lparr>helper = h2, priority = 200\<rparr>,
      \<lparr>helper = b, priority = 100\<rparr>, \<lparr>helper = r, priority = - 100\<rparr>]"
  by (simp add: constructor_helpers_def addHelper_def)

lemma collection_above_and_below:
  "addHelpers (constructor_helpers b r) [(h1, Some 300), (h2, Some (- 200))] =
     [\<lparr>helper = h1, priority = 300\<rparr>, \<lparr>helper = b, priority = 100\<rparr>,
      \<lparr>helper = r, priority = - 100\<rparr>, \<lparr>helper = h2, priority = - 200\<rparr>]"
  by (simp add: constructor_helpers_def addHelper_def)

subsection \<open>Stores registered through addStore\<close>

lemma addStores_eq:
  "addStores stores calls =
     stores @ map (\<lambda>(ts, r). \<lparr>types = map name ts, storageReference = r,
                              create = JUndefined, update = JUndefined\<rparr>) calls"
  by (induction calls arbitrary: stores) (auto simp: addStore_def)

lemma filter_eligible_addStores: "filter (eligible t aid) (addStores [] calls) = []"
  by (induction calls) (auto simp: addStores_eq eligible_def)


subsection \<open>The remote Helper\<close>

text \<open>
  With a candidate store at hand \<^verbatim>\<open>tryNextSource\<close> returns \<^verbatim>\<open>undefined\<close>, so \<^verbatim>\<open>load\<close>
  never returns a promise for the Asset.
\<close>

lemma tryNextSource_with_store_returns_undefined:
  "returned (tryNextSource getBytes (s # ss) i f a err errs) = ReturnsUndefined"
proof (cases "getBytes (storageReference s) (i @ ''.'' @ f)")
  case (Fulfilled b)
  then show ?thesis by (cases b) (simp_all add: Let_def)
qed (simp_all add: Let_def)

lemma FirebaseHelper_load_never_returns_asset_promise:
  "returned (FirebaseHelper_load getBytes stores t i f) =
     (if name t \<noteq> ''Project'' \<and> candidates stores t = []
      then ReturnsPromise (Rejected (JArray []))
      else ReturnsUndefined)"
proof (cases "candidates stores t")
  case Nil
  then show ?thesis by (simp add: FirebaseHelper_load_def Let_def)
next
  case (Cons s ss)
  have "returned (tryNextSource getBytes (s # ss) i f (new_Asset t i f) JUndefined []) =
          ReturnsUndefined"
    by (rule tryNextSource_with_store_returns_undefined)
  with Cons show ?thesis
    unfolding FirebaseHelper_load_def Let_def by (simp del: tryNextSource.simps)
qed

text \<open>
  The filter of \<^verbatim>\<open>store\<close> on a create request and on an update request, and the record
  that \<^verbatim>\<open>store\<close> uses: the first one in registration order that passes the filter.
\<close>

lemma eligible_create_request:
  "is_create aid \<Longrightarrow>
   eligible t aid s \<longleftrightarrow> name t \<in> set (types s) \<and> (truthy (create s) \<or> truthy (update s))"
  by (simp add: eligible_def)

lemma eligible_update_request:
  "\<not> is_create aid \<Longrightarrow>
   eligible t aid s \<longleftrightarrow> name t \<in> set (types s) \<and> truthy (update s)"
  by (simp add: eligible_def)


subsection \<open>ScratchStorage.store\<close>

text \<open>
  With a fulfilled remote write the Coordinator calls \<^verbatim>\<open>_store\<close> once and the promise
  settles by what that call does. With stores registered through \<^verbatim>\<open>addStore\<close> the remote
  write never takes place: the promise rejects, \<^verbatim>\<open>_store\<close> is not called and the cache is
  untouched.
\<close>

lemma store_mirror_outcome:
  assumes "stored (FirebaseHelper_store uploadBytes stores t (defaultFormat t fmt) d aid) =
             StorePromise (Fulfilled body)"
  shows "mirrored (store builtin_store uploadBytes stores cache t fmt d aid) =
           [(t, defaultFormat t fmt, d, body_id body)] \<and>
         cache_after (store builtin_store uploadBytes stores cache t fmt d aid) =
           snd (builtin_store t (defaultFormat t fmt) d (body_id body) cache) \<and>
         store_outcome (store builtin_store uploadBytes stores cache t fmt d aid) =
           (case fst (builtin_store t (defaultFormat t fmt) d (body_id body) cache) of
              None \<Rightarrow> Fulfilled body
            | Some e \<Rightarrow> Rejected e)"
  using assms
  by (simp add: store_def Let_def split: prod.splits option.splits)

lemma store_after_addStore_rejects:
  "store builtin_store uploadBytes (addStores [] calls) cache t fmt d aid =
     \<lparr>store_outcome = Rejected (JError ''No appropriate stores''), cache_after = cache,
      mirrored = [], remote_events = []\<rparr>"
  by (simp add: store_def Let_def FirebaseHelper_store_def filter_eligible_addStores)

section \<open>Coordinator load: a promise that resolves to null\<close>

text \<open>
  C1, evaluated. Two helpers are added above the built-in one. The first returns a
  promise that resolves to \<^verbatim>\<open>null\<close>, the second would deliver the asset:
  \<^verbatim>\<open>loading.catch(tryNextHelper)\<close> passes the fulfilment through, so the call resolves with
  \<^verbatim>\<open>null\<close> and the second helper is never asked. With the \<^verbatim>\<open>null\<close> sentinel in place of that
  promise the same collection goes on to the second helper and resolves with the asset.
\<close>

theorem load_null_promise_ends_call:
  "map (\<lambda>e. hname (helper e))
     (addHelpers (constructor_helpers builtin_empty (firebaseHelper backend_has_bytes []))
        calls_null_then_asset) = [''first'', ''second'', ''builtin'', ''firebase''] \<and>
   load (addHelpers (constructor_helpers builtin_empty (firebaseHelper backend_has_bytes []))
        calls_null_then_asset) ImageBitmap ''abc123'' None =
     \<lparr>outcome = Returned (Fulfilled VNull), invoked = [''first''], errors = []\<rparr> \<and>
   load (addHelpers (constructor_helpers builtin_empty (firebaseHelper backend_has_bytes []))
        calls_skip_then_asset) ImageBitmap ''abc123'' None =
     \<lparr>outcome = Returned (Fulfilled (VAsset png_asset)), invoked = [''first'', ''second''],
      errors = []\<rparr>"
  unfolding calls_null_then_asset_def calls_skip_then_asset_def collection_two_above
  by (simp add: load_def constHelper_def builtin_empty_def firebaseHelper_def Let_def)

section \<open>Coordinator load: the end of the helper list\<close>

text \<open>
  C2, evaluated. One helper is added above the built-in one and one below the remote one.
  The first rejects with status 403, the built-in one returns the sentinel, the remote
  one has no store and rejects with its empty array, the last returns a promise that
  resolves to \<^verbatim>\<open>null\<close>: every helper has been attempted, none delivered an asset, two
  errors are recorded, and the call resolves with \<^verbatim>\<open>null\<close>. With the \<^verbatim>\<open>null\<close> sentinel in
  place of that promise the end of the list is reached and the call rejects with the
  recorded errors.
\<close>

theorem load_error_then_null_promise_resolves_null:
  "map (\<lambda>e. hname (helper e))
     (addHelpers (constructor_helpers builtin_empty (firebaseHelper backend_has_bytes []))
        calls_error_then_null) = [''first'', ''builtin'', ''firebase'', ''last''] \<and>
   load (addHelpers (constructor_helpers builtin_empty (firebaseHelper backend_has_bytes []))
        calls_error_then_null) ImageBitmap ''abc123'' None =
     \<lparr>outcome = Returned (Fulfilled VNull),
      invoked = [''first'', ''builtin'', ''firebase'', ''last''],
      errors = [JNum 403, JArray []]\<rparr> \<and>
   load (addHelpers (constructor_helpers builtin_empty (firebaseHelper backend_has_bytes []))
        calls_error_then_skip) ImageBitmap ''abc123'' None =
     \<lparr>outcome = Returned (Rejected (JArray [JNum 403, JArray []])),
      invoked = [''first'', ''builtin'', ''firebase'', ''last''],
      errors = [JNum 403, JArray []]\<rparr>"
  unfolding calls_error_then_null_def calls_error_then_skip_def collection_above_and_below
  by (simp add: load_def constHelper_def builtin_empty_def
      firebaseHelper_def FirebaseHelper_load_def candidates_def ImageBitmap_def Let_def)

section \<open>FirebaseHelper load over its candidate stores\<close>

text \<open>
  C3, evaluated. With one store registered for the type and a backend that has the
  bytes, \<^verbatim>\<open>load\<close> issues the \<^verbatim>\<open>getBytes\<close>, warns and returns \<^verbatim>\<open>undefined\<close>: the promise
  that is fulfilled with the populated Asset is created and dropped, and the Coordinator's
  \<^verbatim>\<open>loading.catch\<close> throws a \<^verbatim>\<open>TypeError\<close>. With two stores and a backend that rejects with
  status 403, the rejection is not recorded and the second store is never tried. With two
  stores of which the second has the bytes, both are tried in registration order and the
  Asset is populated, but the caller still has \<^verbatim>\<open>undefined\<close> in hand.
\<close>

theorem FirebaseHelper_load_returns_no_promise:
  "FirebaseHelper_load backend_has_bytes one_store ImageBitmap ''abc123'' ''png'' =
     \<lparr>returned = ReturnsUndefined,
      events = [GetBytes 1 ''abc123.png'', Warn ''Asset not found in Firebase storage''],
      chained = Some (Fulfilled (VAsset png_asset)),
      asset_after = png_asset, errors_after = []\<rparr> \<and>
   outcome (load [\<lparr>helper = firebaseHelper backend_has_bytes one_store, priority = - 100\<rparr>]
              ImageBitmap ''abc123'' (Some ''png'')) = Threw JTypeError \<and>
   FirebaseHelper_load backend_forbidden two_stores ImageBitmap ''abc123'' ''png'' =
     \<lparr>returned = ReturnsUndefined,
      events = [GetBytes 1 ''abc123.png'', Warn ''Asset not found in Firebase storage''],
      chained = Some (Rejected (JNum 403)),
      asset_after = new_Asset ImageBitmap ''abc123'' ''png'', errors_after = []\<rparr> \<and>
   FirebaseHelper_load backend_second_has_bytes two_stores ImageBitmap ''abc123'' ''png'' =
     \<lparr>returned = ReturnsUndefined,
      events = [GetBytes 1 ''abc123.png'', Warn ''Asset not found in Firebase storage'',
                GetBytes 2 ''abc123.png'', Warn ''Asset not found in Firebase storage''],
      chained = Some (Fulfilled VUndefined),
      asset_after = png_asset, errors_after = []\<rparr>"
  by (simp add: FirebaseHelper_load_def candidates_def one_store_def two_stores_def addStore_def
      backend_has_bytes_def backend_forbidden_def backend_second_has_bytes_def
      ImageBitmap_def png_asset_def new_Asset_def setData_def load_def firebaseHelper_def
      defaultFormat_def)

section \<open>FirebaseHelper store: the choice of the store record\<close>



section \<open>Coordinator load: success after errors\<close>

text \<open>
  C6. Let the helper at position \<open>k\<close> be reached (every helper before it returned the
  sentinel or a promise that rejected) and let its promise resolve with an Asset. Then the
  call resolves with that Asset, whatever the earlier helpers recorded in \<^verbatim>\<open>errors\<close>.
\<close>

theorem load_success_discards_errors:
  assumes "k < length entries"
    and "list_all (\<lambda>e. advances (hload (helper e) t i (defaultFormat t fmt))) (take k entries)"
    and "hload (helper (entries ! k)) t i (defaultFormat t fmt) = ReturnsPromise (Fulfilled (VAsset a))"
  shows "outcome (load entries t i fmt) = Returned (Fulfilled (VAsset a)) \<and>
         errors (load entries t i fmt) =
           concat (map (\<lambda>e. recorded (hload (helper e) t i (defaultFormat t fmt))) (take k entries))"
proof -
  have reached: "k < length (invoked (load entries t i fmt))"
    using assms(1,2) by (rule load_reached)
  from load_settles [OF reached assms(3)]
  have out: "outcome (load entries t i fmt) = Returned (Fulfilled (VAsset a))"
    and len: "length (invoked (load entries t i fmt)) = Suc k" by simp_all
  have "errors (load entries t i fmt) =
      concat (map (\<lambda>e. recorded (hload (helper e) t i (defaultFormat t fmt))) (take (Suc k) entries))"
    using load_errors [of entries t i fmt] len by simp
  also have "take (Suc k) entries = take k entries @ [entries ! k]"
    using assms(1) by (rule take_Suc_conv_app_nth)
  finally show ?thesis using out assms(3) by simp
qed

text \<open>
  The first helper rejects with status 500, the second resolves with the asset.
\<close>

theorem load_success_discards_errors_witness:
  "outcome (load entries_error_then_asset ImageBitmap ''abc123'' None) =
     Returned (Fulfilled (VAsset png_asset)) \<and>
   errors (load entries_error_then_asset ImageBitmap ''abc123'' None) = [JNum 500]"
  using load_success_discards_errors [of 1 entries_error_then_asset ImageBitmap "''abc123''" None png_asset]
  by (simp add: entries_error_then_asset_def constHelper_def)

section \<open>addHelper and the order of the walk\<close>



section \<open>The Project asset type\<close>

text \<open>
  C8, as the code has it. For the asset type named Project, \<^verbatim>\<open>load\<close> warns and returns
  \<^verbatim>\<open>undefined\<close> whatever stores are registered. \<^verbatim>\<open>store\<close> first looks for an eligible
  record: without one it returns a promise rejected with
  \<^verbatim>\<open>Error('No appropriate stores')\<close> and does not warn; with one it warns and returns
  \<^verbatim>\<open>undefined\<close>. Neither issues a network call.
\<close>

theorem Project_short_circuits:
  assumes "name t = ''Project''"
  shows "FirebaseHelper_load getBytes stores t i f =
           \<lparr>returned = ReturnsUndefined,
            events = [Warn ''Project loading is not supported yet''], chained = None,
            asset_after = new_Asset t i f, errors_after = []\<rparr> \<and>
         FirebaseHelper_store uploadBytes stores t f d aid =
           (if filter (eligible t aid) stores = []
            then \<lparr>stored = StorePromise (Rejected (JError ''No appropriate stores'')),
                  store_events = []\<rparr>
            else \<lparr>stored = StoreUndefined,
                  store_events = [Warn ''Project loading is not supported yet'']\<rparr>) \<and>
         filter network_call (events (FirebaseHelper_load getBytes stores t i f)) = [] \<and>
         filter network_call (store_events (FirebaseHelper_store uploadBytes stores t f d aid)) = []"
  using assms
  by (simp add: FirebaseHelper_load_def FirebaseHelper_store_def split: list.splits)

text \<open>
  A store record for Project with both capabilities: load and store both warn and return
  undefined.
\<close>

theorem Project_short_circuits_witness:
  "FirebaseHelper_load backend_has_bytes project_update_store Project ''42'' ''json'' =
     \<lparr>returned = ReturnsUndefined,
      events = [Warn ''Project loading is not supported yet''], chained = None,
      asset_after = new_Asset Project ''42'' ''json'', errors_after = []\<rparr> \<and>
   FirebaseHelper_store upload_ok project_update_store Project ''json'' png_bytes (JStr ''42'') =
     \<lparr>stored = StoreUndefined, store_events = [Warn ''Project loading is not supported yet'']\<rparr>"
  using Project_short_circuits [of Project backend_has_bytes project_update_store "''42''" "''json''"
      upload_ok png_bytes "JStr ''42''"]
  by (simp add: Project_def project_update_store_def eligible_def is_create_def)

text \<open>
  A store registered for Project through \<^verbatim>\<open>addStore\<close>: \<^verbatim>\<open>store\<close> returns a rejected
  promise and logs no warning.
\<close>

theorem Project_store_counterexample:
  "name Project = ''Project'' \<and>
   map types project_store = [[''Project'']] \<and>
   FirebaseHelper_store upload_ok project_store Project ''json'' png_bytes (JStr ''42'') =
     \<lparr>stored = StorePromise (Rejected (JError ''No appropriate stores'')), store_events = []\<rparr>"
  by (simp add: FirebaseHelper_store_def is_create_def eligible_def project_store_def
      addStore_def Project_def)

section \<open>FirebaseHelper load without a candidate store\<close>




section \<open>Stores registered through addStore never accept a write\<close>

text \<open>
  C10. \<^verbatim>\<open>addStore\<close> records the names of the asset types and the storage reference and
  leaves \<^verbatim>\<open>create\<close> and \<^verbatim>\<open>update\<close> unset. So with stores registered only through
  \<^verbatim>\<open>addStore\<close>, whatever the asset type, the data and the asset id, the filter of
  \<^verbatim>\<open>store\<close> keeps no record and the call returns a promise rejected with
  \<^verbatim>\<open>Error('No appropriate stores')\<close>, with no warning and no upload.
\<close>

theorem addStore_sets_no_capability_store_rejects:
  "map types (addStores [] calls) = map (\<lambda>c. map name (fst c)) calls \<and>
   map storageReference (addStores [] calls) = map snd calls \<and>
   map create (addStores [] calls) = replicate (length calls) JUndefined \<and>
   map update (addStores [] calls) = replicate (length calls) JUndefined \<and>
   filter (eligible t aid) (addStores [] calls) = [] \<and>
   FirebaseHelper_store uploadBytes (addStores [] calls) t f d aid =
     \<lparr>stored = StorePromise (Rejected (JError ''No appropriate stores'')), store_events = []\<rparr>"
proof -
  have 1: "map types (addStores [] calls) = map (\<lambda>c. map name (fst c)) calls"
    by (simp add: addStores_eq split_def)
  have 2: "map storageReference (addStores [] calls) = map snd calls"
    by (simp add: addStores_eq split_def)
  have 3: "map create (addStores [] calls) = replicate (length calls) JUndefined"
    by (simp add: addStores_eq split_def comp_def map_replicate_const)
  have 4: "map update (addStores [] calls) = replicate (length calls) JUndefined"
    by (simp add: addStores_eq split_def comp_def map_replicate_const)
  have 5: "filter (eligible t aid) (addStores [] calls) = []"
    by (rule filter_eligible_addStores)
  have 6: "FirebaseHelper_store uploadBytes (addStores [] calls) t f d aid =
     \<lparr>stored = StorePromise (Rejected (JError ''No appropriate stores'')), store_events = []\<rparr>"
    by (simp add: FirebaseHelper_store_def 5)
  from 1 2 3 4 5 6 show ?thesis by blast
qed

end
